theory Spec2Isabelle
  imports Complex_Main
begin

section \<open>JavaScript values used by the status proxy\<close>

text \<open>
  The service is one module, \<^verbatim>\<open>infinite-endpoint-status-proxy.mjs\<close>. Strings are
  modelled as lists of 8-bit code units. The numbers that the program itself computes and
  prints (a latency, an HTTP status, the timeout) are integers of fewer than 21 digits,
  which template literals such as \<^verbatim>\<open>`HTTP ${res.status}`\<close> print in decimal.
\<close>

definition digit_char :: "nat \<Rightarrow> char" where
  "digit_char d =
     (if d = 0 then CHR ''0'' else if d = 1 then CHR ''1'' else if d = 2 then CHR ''2''
      else if d = 3 then CHR ''3'' else if d = 4 then CHR ''4'' else if d = 5 then CHR ''5''
      else if d = 6 then CHR ''6'' else if d = 7 then CHR ''7'' else if d = 8 then CHR ''8''
      else CHR ''9'')"

fun show_nat :: "nat \<Rightarrow> string" where
  "show_nat n = (if n < 10 then [digit_char n] else show_nat (n div 10) @ [digit_char (n mod 10)])"

declare show_nat.simps [simp del]

definition show_int :: "int \<Rightarrow> string" where
  "show_int i = (if i < 0 then CHR ''-'' # show_nat (nat (- i)) else show_nat (nat i))"

text \<open>
  A JSON value, over a type \<open>'n\<close> of numbers. An object is the list of its own properties
  in insertion order; \<^verbatim>\<open>undefined\<close> is \<open>None\<close> of \<open>'n json option\<close>.
\<close>

datatype 'n json =
    JNull
  | JBool bool
  | JNumber 'n
  | JString string
  | JArray "'n json list"
  | JObject "(string \<times> 'n json) list"

text \<open>
  A number of a parsed document (the value of \<^verbatim>\<open>await res.json()\<close>) is any double:
  an integer or not, of any size. The program observes two things of it, and a parsed
  number is given by these two: whether it is zero (\<^verbatim>\<open>ToBoolean\<close>; \<^verbatim>\<open>NaN\<close> is no
  JSON number), and the text that \<^verbatim>\<open>ToString\<close> prints for it, in decimal or in
  exponent form as JavaScript decides. The values that the program gives to
  \<^verbatim>\<open>JSON.stringify\<close> hold integers.
\<close>

datatype parsed_number = Parsed_number (is_zero: bool) (printed: string)

type_synonym parsed = "parsed_number json"

text \<open>
  Property read \<^verbatim>\<open>v.k\<close> for a key that no prototype defines (the program reads only
  \<^verbatim>\<open>error\<close> and \<^verbatim>\<open>message\<close>): an own property of an object, \<^verbatim>\<open>undefined\<close> on
  every other value. The program reads \<^verbatim>\<open>data?.error\<close> with optional chaining, which is
  \<^verbatim>\<open>undefined\<close> on \<^verbatim>\<open>null\<close>, and \<^verbatim>\<open>data.error.message\<close> only on a truthy
  \<^verbatim>\<open>data.error\<close>.
\<close>

fun member :: "'n json \<Rightarrow> string \<Rightarrow> 'n json option" where
  "member (JObject kvs) k = map_of kvs k"
| "member _ k = None"

text \<open>JavaScript truthiness (\<^verbatim>\<open>ToBoolean\<close>).\<close>

fun truthy :: "parsed option \<Rightarrow> bool" where
  "truthy None = False"
| "truthy (Some JNull) = False"
| "truthy (Some (JBool b)) = b"
| "truthy (Some (JNumber n)) = (\<not> is_zero n)"
| "truthy (Some (JString s)) = (s \<noteq> [])"
| "truthy (Some (JArray xs)) = True"
| "truthy (Some (JObject kvs)) = True"

text \<open>
  \<^verbatim>\<open>ToString\<close>, which \<^verbatim>\<open>new Error(message)\<close> applies to its argument. \<open>None\<close> is the
  \<^verbatim>\<open>TypeError\<close> raised for an object whose own \<^verbatim>\<open>toString\<close> property hides the
  inherited method (a JSON value is never callable).
\<close>

fun join_comma :: "string list \<Rightarrow> string" where
  "join_comma [] = []"
| "join_comma [s] = s"
| "join_comma (s # t # ss) = s @ CHR '','' # join_comma (t # ss)"

fun those_strings :: "string option list \<Rightarrow> string list option" where
  "those_strings [] = Some []"
| "those_strings (None # xs) = None"
| "those_strings (Some s # xs) = (case those_strings xs of None \<Rightarrow> None | Some ss \<Rightarrow> Some (s # ss))"

fun ToString :: "parsed \<Rightarrow> string option" where
  "ToString JNull = Some ''null''"
| "ToString (JBool b) = Some (if b then ''true'' else ''false'')"
| "ToString (JNumber n) = Some (printed n)"
| "ToString (JString s) = Some s"
| "ToString (JArray xs) =
     (case those_strings (map (\<lambda>x. if x = JNull then Some [] else ToString x) xs) of
        None \<Rightarrow> None
      | Some ss \<Rightarrow> Some (join_comma ss))"
| "ToString (JObject kvs) =
     (if ''toString'' \<in> set (map fst kvs) then None else Some ''[object Object]'')"

text \<open>A thrown value: an \<^verbatim>\<open>Error\<close> instance with its message, or anything else.\<close>

datatype thrown = JsError string | NonError

definition TypeError_to_primitive :: thrown where
  "TypeError_to_primitive = JsError ''Cannot convert object to primitive value''"

definition new_Error :: "parsed \<Rightarrow> thrown" where
  "new_Error m = (case ToString m of None \<Rightarrow> TypeError_to_primitive | Some s \<Rightarrow> JsError s)"


text \<open>The operator \<^verbatim>\<open>a || b\<close> on a possibly undefined JSON value.\<close>

fun js_or :: "parsed option \<Rightarrow> parsed \<Rightarrow> parsed" where
  "js_or None b = b"
| "js_or (Some a) b = (if truthy (Some a) then a else b)"

section \<open>Promises, timers and the clock\<close>

text \<open>
  A promise is described by what the event loop will do with it: it is fulfilled or
  rejected a number of milliseconds after it was created, or it stays pending for ever.
  These milliseconds are those of the event loop's own monotonic time, by which timers
  fire; \<^verbatim>\<open>Date.now()\<close> is another clock (see the world below).
\<close>

datatype 'a promise = Fulfilled nat 'a | Rejected nat thrown | Pending

fun settled_by :: "'a promise \<Rightarrow> nat \<Rightarrow> bool" where
  "settled_by (Fulfilled d v) t = (d \<le> t)"
| "settled_by (Rejected d e) t = (d \<le> t)"
| "settled_by Pending t = False"

text \<open>
  \<^verbatim>\<open>Promise.race([p, q])\<close>: the one that settles first decides; when both have
  settled at the same time the first of the array does.
\<close>

fun Promise_race :: "'a promise \<Rightarrow> 'a promise \<Rightarrow> 'a promise" where
  "Promise_race p (Fulfilled d v) = (if settled_by p d then p else Fulfilled d v)"
| "Promise_race p (Rejected d e) = (if settled_by p d then p else Rejected d e)"
| "Promise_race p Pending = p"

text \<open>
  The delay after which \<^verbatim>\<open>setTimeout(f, ms)\<close> fires: Node replaces a delay below 1 or
  above \<open>2147483647\<close> by 1 millisecond.
\<close>

definition setTimeout_delay :: "int \<Rightarrow> nat" where
  "setTimeout_delay ms = (if ms < 1 \<or> 2147483647 < ms then 1 else nat ms)"

text \<open>
  \<^verbatim>\<open>new Promise((_, reject) => setTimeout(() => reject(e), ms))\<close>
\<close>

definition reject_after :: "int \<Rightarrow> thrown \<Rightarrow> 'a promise" where
  "reject_after ms e = Rejected (setTimeout_delay ms) e"

definition timeout_message :: "int \<Rightarrow> string" where
  "timeout_message timeoutMs = ''timeout after '' @ show_int timeoutMs @ ''ms''"

definition withTimeout :: "'a promise \<Rightarrow> int \<Rightarrow> 'a promise" where
  "withTimeout promise timeoutMs =
     Promise_race promise (reject_after timeoutMs (JsError (timeout_message timeoutMs)))"

text \<open>
  The completion of an awaited operation or of an \<^verbatim>\<open>async\<close> function started at the
  monotonic time \<open>now\<close>: a value or a thrown value together with the monotonic time of
  that moment, or no completion at all.
\<close>

datatype 'a completion = Returned 'a nat | Threw thrown nat | Unsettled

fun await :: "'a promise \<Rightarrow> nat \<Rightarrow> 'a completion" where
  "await (Fulfilled d v) now = Returned v (now + d)"
| "await (Rejected d e) now = Threw e (now + d)"
| "await Pending now = Unsettled"

section \<open>Configuration and the check registry\<close>

text \<open>
  \<open>process_env\<close> is \<^verbatim>\<open>process.env\<close>. \<open>REQUEST_TIMEOUT_MS\<close> stands for the constant
  \<^verbatim>\<open>Number(process.env.REQUEST_TIMEOUT_MS || 7000)\<close> where it is an integer, of either
  sign and of any size (fewer than 21 digits for its printed form). The coercion of the
  text is not modelled: a text that \<^verbatim>\<open>Number\<close> reads as \<^verbatim>\<open>NaN\<close> or as a fraction has
  no counterpart here.
\<close>

record config =
  process_env :: "string \<Rightarrow> string option"
  REQUEST_TIMEOUT_MS :: int

text \<open>\<^verbatim>\<open>process.env.NAME || fallback\<close>: an unset or empty variable gives the fallback.\<close>

definition env_or :: "config \<Rightarrow> string \<Rightarrow> string \<Rightarrow> string" where
  "env_or cfg name fallback =
     (case process_env cfg name of
        None \<Rightarrow> fallback
      | Some v \<Rightarrow> if v = [] then fallback else v)"

definition CORS_ORIGIN :: "config \<Rightarrow> string" where
  "CORS_ORIGIN cfg = env_or cfg ''CORS_ORIGIN'' ''https://foxxone.one''"

text \<open>
  \<^verbatim>\<open>String.prototype.split(",")\<close>, \<^verbatim>\<open>trim()\<close> (white space among 8-bit code units:
  tab, line feed, vertical tab, form feed, carriage return, space, no-break space) and
  \<^verbatim>\<open>filter(Boolean)\<close> on strings.
\<close>

fun split_comma :: "string \<Rightarrow> string list" where
  "split_comma [] = [[]]"
| "split_comma (c # cs) =
     (if c = CHR '','' then [] # split_comma cs
      else (case split_comma cs of
              [] \<Rightarrow> [[c]]
            | p # ps \<Rightarrow> (c # p) # ps))"

definition is_white_space :: "char \<Rightarrow> bool" where
  "is_white_space c = ((of_char c :: nat) \<in> {9, 10, 11, 12, 13, 32, 160})"

definition trim :: "string \<Rightarrow> string" where
  "trim s = rev (dropWhile is_white_space (rev (dropWhile is_white_space s)))"

definition ALLOW_ORIGINS :: "config \<Rightarrow> string list" where
  "ALLOW_ORIGINS cfg = filter (\<lambda>v. v \<noteq> []) (map trim (split_comma (CORS_ORIGIN cfg)))"

text \<open>
  A check descriptor is a tagged union on its \<^verbatim>\<open>kind\<close>. The port of a TCP check is
  kept as the text that \<^verbatim>\<open>Number\<close> is applied to (\<^verbatim>\<open>Number(443)\<close> and
  \<^verbatim>\<open>Number("443")\<close> are the same number).
\<close>

datatype check =
    Jsonrpc (check_id: string) (url: string)
  | Tendermint (check_id: string) (url: string)
  | Tcp (check_id: string) (host: string) (port: string)

fun kind :: "check \<Rightarrow> string" where
  "kind (Jsonrpc i u) = ''jsonrpc''"
| "kind (Tendermint i u) = ''tendermint''"
| "kind (Tcp i h p) = ''tcp''"

definition CHECKS :: "config \<Rightarrow> check list" where
  "CHECKS cfg =
     [ Jsonrpc ''infinite-evm'' (env_or cfg ''INFINITE_EVM_URL'' ''https://evm-rpc.infinitedrive.xyz''),
       Tendermint ''infinite-comet''
         (env_or cfg ''INFINITE_COMET_URL'' ''https://comet-rpc.infinitedrive.xyz''),
       Tcp ''infinite-grpc''
         (env_or cfg ''INFINITE_GRPC_HOST'' ''grpc.infinitedrive.xyz'')
         (env_or cfg ''INFINITE_GRPC_PORT'' ''443''),
       Jsonrpc ''infinite-evm-testnet''
         (env_or cfg ''INFINITE_EVM_TESTNET_URL'' ''https://evm-rpc-testnet.infinitedrive.xyz''),
       Tendermint ''infinite-comet-testnet''
         (env_or cfg ''INFINITE_COMET_TESTNET_URL'' ''https://comet-rpc-testnet.infinitedrive.xyz''),
       Tcp ''infinite-grpc-testnet''
         (env_or cfg ''INFINITE_GRPC_TESTNET_HOST'' ''grpc-testnet.infinitedrive.xyz'')
         (env_or cfg ''INFINITE_GRPC_TESTNET_PORT'' ''443'') ]"

section \<open>CORS\<close>

text \<open>
  The module constant \<^verbatim>\<open>ALLOW_ORIGINS\<close> that \<^verbatim>\<open>resolveAllowedOrigin\<close> reads is
  its first argument here; \<^verbatim>\<open>jsonHeaders\<close> passes the constant. A request without an
  \<^verbatim>\<open>Origin\<close> header arrives as the empty string.
\<close>

definition resolveAllowedOrigin :: "string list \<Rightarrow> string \<Rightarrow> string" where
  "resolveAllowedOrigin allow requestOrigin =
     (case allow of
        [] \<Rightarrow> ''*''
      | first # others \<Rightarrow>
          if ''*'' \<in> set allow then ''*''
          else if requestOrigin = [] then first
          else if requestOrigin \<in> set allow then requestOrigin
          else first)"

definition jsonHeaders :: "config \<Rightarrow> string \<Rightarrow> (string \<times> string) list" where
  "jsonHeaders cfg requestOrigin =
     (let allowOrigin = resolveAllowedOrigin (ALLOW_ORIGINS cfg) requestOrigin in
      [ (''content-type'', ''application/json; charset=utf-8''),
        (''cache-control'', ''no-store''),
        (''access-control-allow-origin'', allowOrigin),
        (''access-control-allow-methods'', ''GET, OPTIONS''),
        (''access-control-allow-headers'', ''content-type'') ])"

section \<open>The outside world\<close>

text \<open>
  What the network and the platform answer. \<open>fetch\<close> gives the promise of
  \<^verbatim>\<open>fetch(url, init)\<close>; a response carries its status and the promise of
  \<^verbatim>\<open>res.json()\<close>. \<open>socket_events\<close> gives the first event of the socket made by
  \<^verbatim>\<open>net.createConnection({ host, port })\<close>. \<open>URL_pathname\<close> is
  \<^verbatim>\<open>new URL(input, base).pathname\<close>, \<open>None\<close> when the constructor throws.
  \<open>uptime_ns\<close> is the time since the process started, of which
  \<^verbatim>\<open>process.uptime()\<close> is the number of seconds.

  \<open>Date_now\<close> gives the reading of \<^verbatim>\<open>Date.now()\<close> at a monotonic time. It is the
  wall clock of the machine, which can be set while the process runs: nothing relates
  two of its readings, and a later reading can be the smaller one. \<open>toISOString\<close>
  prints a reading as \<^verbatim>\<open>new Date().toISOString()\<close> does.
\<close>

record fetch_init =
  http_method :: string
  http_headers :: "(string \<times> string) list"
  http_body :: "int json"

record fetch_response =
  res_status :: nat
  res_json :: "parsed promise"

definition res_ok :: "fetch_response \<Rightarrow> bool" where
  "res_ok res = (200 \<le> res_status res \<and> res_status res \<le> 299)"

datatype socket_event = Connect nat | SocketError nat thrown | NoEvent

record world =
  fetch :: "string \<Rightarrow> fetch_init option \<Rightarrow> fetch_response promise"
  socket_events :: "string \<Rightarrow> string \<Rightarrow> socket_event"
  URL_pathname :: "string \<Rightarrow> string \<Rightarrow> string option"
  uptime_ns :: nat
  Date_now :: "nat \<Rightarrow> int"
  toISOString :: "int \<Rightarrow> string"

section \<open>The probes\<close>

definition jsonrpc_init :: fetch_init where
  "jsonrpc_init =
     \<lparr> http_method = ''POST'',
       http_headers = [(''content-type'', ''application/json'')],
       http_body = JObject [ (''jsonrpc'', JString ''2.0''), (''id'', JNumber 1),
                             (''method'', JString ''web3_clientVersion''), (''params'', JArray []) ] \<rparr>"

definition probeJsonRpc :: "config \<Rightarrow> world \<Rightarrow> string \<Rightarrow> nat \<Rightarrow> int completion" where
  "probeJsonRpc cfg w u now =
     (let start = Date_now w now in
      case await (withTimeout (fetch w u (Some jsonrpc_init)) (REQUEST_TIMEOUT_MS cfg)) now of
        Unsettled \<Rightarrow> Unsettled
      | Threw e t \<Rightarrow> Threw e t
      | Returned res t \<Rightarrow>
          if \<not> res_ok res then Threw (JsError (''HTTP '' @ show_nat (res_status res))) t
          else
            (case await (res_json res) t of
               Unsettled \<Rightarrow> Unsettled
             | Threw e t' \<Rightarrow> Threw e t'
             | Returned data t' \<Rightarrow>
                 (case member data ''error'' of
                    None \<Rightarrow> Returned (Date_now w t' - start) t'
                  | Some err \<Rightarrow>
                      if truthy (Some err)
                      then Threw (new_Error (js_or (member err ''message'') (JString ''json-rpc error''))) t'
                      else Returned (Date_now w t' - start) t')))"

definition probeTendermintStatus :: "config \<Rightarrow> world \<Rightarrow> string \<Rightarrow> nat \<Rightarrow> int completion" where
  "probeTendermintStatus cfg w u now =
     (let start = Date_now w now in
      case await (withTimeout (fetch w (u @ ''/status'') None) (REQUEST_TIMEOUT_MS cfg)) now of
        Unsettled \<Rightarrow> Unsettled
      | Threw e t \<Rightarrow> Threw e t
      | Returned res t \<Rightarrow>
          if \<not> res_ok res then Threw (JsError (''HTTP '' @ show_nat (res_status res))) t
          else Returned (Date_now w t - start) t)"

text \<open>
  The promise that \<^verbatim>\<open>probeTcp\<close> builds: resolved with \<^verbatim>\<open>true\<close> by the socket's
  \<^verbatim>\<open>connect\<close> event, rejected by its \<^verbatim>\<open>error\<close> event.
\<close>

fun socket_promise :: "socket_event \<Rightarrow> bool promise" where
  "socket_promise (Connect d) = Fulfilled d True"
| "socket_promise (SocketError d e) = Rejected d e"
| "socket_promise NoEvent = Pending"

definition probeTcp :: "config \<Rightarrow> world \<Rightarrow> string \<Rightarrow> string \<Rightarrow> nat \<Rightarrow> int completion" where
  "probeTcp cfg w h p now =
     (let start = Date_now w now in
      case await (withTimeout (socket_promise (socket_events w h p)) (REQUEST_TIMEOUT_MS cfg)) now of
        Unsettled \<Rightarrow> Unsettled
      | Threw e t \<Rightarrow> Threw e t
      | Returned done_flag t \<Rightarrow> Returned (Date_now w t - start) t)"

section \<open>Running the checks\<close>

record probe_outcome =
  status :: string
  detail :: string
  latency_ms :: "int option"

text \<open>
  \<^verbatim>\<open>statuses[check.id] = entry\<close> on an object whose keys are not array indices: a
  present key keeps its place and takes the new value, a new key goes last. (An object
  lists keys that are array indices, such as \<^verbatim>\<open>"7"\<close>, first and in numeric order; the
  ids of the registry are not of that form.)
\<close>

definition array_index_key :: "string \<Rightarrow> bool" where
  "array_index_key k =
     (k \<noteq> [] \<and> list_all (\<lambda>c. c \<in> set ''0123456789'') k \<and> (hd k = CHR ''0'' \<longrightarrow> k = ''0''))"

fun obj_set :: "(string \<times> 'v) list \<Rightarrow> string \<Rightarrow> 'v \<Rightarrow> (string \<times> 'v) list" where
  "obj_set [] k v = [(k, v)]"
| "obj_set ((k', v') # kvs) k v =
     (if k' = k then (k, v) # kvs else (k', v') # obj_set kvs k v)"

text \<open>The probe that the body of the \<^verbatim>\<open>try\<close> block awaits for a descriptor.\<close>

fun run_probe :: "config \<Rightarrow> world \<Rightarrow> check \<Rightarrow> nat \<Rightarrow> int completion" where
  "run_probe cfg w (Jsonrpc i u) now = probeJsonRpc cfg w u now"
| "run_probe cfg w (Tendermint i u) now = probeTendermintStatus cfg w u now"
| "run_probe cfg w (Tcp i h p) now = probeTcp cfg w h p now"

definition up_entry :: "int \<Rightarrow> probe_outcome" where
  "up_entry latencyMs =
     \<lparr> status = ''UP'', detail = ''Latency '' @ show_int latencyMs @ ''ms'',
       latency_ms = Some latencyMs \<rparr>"

definition down_entry :: "thrown \<Rightarrow> probe_outcome" where
  "down_entry err =
     \<lparr> status = ''DOWN'',
       detail = (case err of JsError m \<Rightarrow> m | NonError \<Rightarrow> ''request failed''),
       latency_ms = None \<rparr>"

fun runChecks_loop ::
  "config \<Rightarrow> world \<Rightarrow> check list \<Rightarrow> (string \<times> probe_outcome) list \<Rightarrow> nat
    \<Rightarrow> (string \<times> probe_outcome) list completion" where
  "runChecks_loop cfg w [] statuses now = Returned statuses now"
| "runChecks_loop cfg w (c # cs) statuses now =
     (case run_probe cfg w c now of
        Returned latencyMs t \<Rightarrow>
          runChecks_loop cfg w cs (obj_set statuses (check_id c) (up_entry latencyMs)) t
      | Threw err t \<Rightarrow>
          runChecks_loop cfg w cs (obj_set statuses (check_id c) (down_entry err)) t
      | Unsettled \<Rightarrow> Unsettled)"

record status_report =
  checked_at :: string
  source :: string
  statuses :: "(string \<times> probe_outcome) list"

definition runChecks :: "config \<Rightarrow> world \<Rightarrow> nat \<Rightarrow> status_report completion" where
  "runChecks cfg w now =
     (case runChecks_loop cfg w (CHECKS cfg) [] now of
        Returned st t \<Rightarrow>
          Returned \<lparr> checked_at = toISOString w (Date_now w t), source = ''server'', statuses = st \<rparr> t
      | Threw e t \<Rightarrow> Threw e t
      | Unsettled \<Rightarrow> Unsettled)"

section \<open>The HTTP surface\<close>

text \<open>
  A request as the handler reads it: the method, \<^verbatim>\<open>req.url\<close> (possibly undefined), and
  the \<^verbatim>\<open>origin\<close> and \<^verbatim>\<open>host\<close> headers. A reply is what \<^verbatim>\<open>writeHead\<close> and
  \<^verbatim>\<open>end\<close> send; its body is the value given to \<^verbatim>\<open>JSON.stringify\<close>, \<open>None\<close> for
  an empty body.
\<close>

record request =
  req_method :: string
  req_url :: "string option"
  header_origin :: "string option"
  header_host :: "string option"

record reply =
  code :: nat
  headers :: "(string \<times> string) list"
  body :: "int json option"

text \<open>
  The handler sends a reply, or its promise is rejected before any reply is written, or
  it waits for ever.
\<close>

datatype handled = Replied reply | Failed thrown | Waiting

definition process_uptime :: "world \<Rightarrow> rat" where
  "process_uptime w = of_nat (uptime_ns w) / 1000000000"

definition Math_round :: "rat \<Rightarrow> int" where
  "Math_round x = \<lfloor>x + 1 / 2\<rfloor>"

definition outcome_json :: "probe_outcome \<Rightarrow> int json" where
  "outcome_json e =
     JObject [ (''status'', JString (status e)), (''detail'', JString (detail e)),
               (''latency_ms'', (case latency_ms e of None \<Rightarrow> JNull | Some l \<Rightarrow> JNumber l)) ]"

definition report_json :: "status_report \<Rightarrow> int json" where
  "report_json r =
     JObject [ (''checked_at'', JString (checked_at r)), (''source'', JString (source r)),
               (''statuses'', JObject (map (\<lambda>(k, e). (k, outcome_json e)) (statuses r))) ]"

definition error_body :: "string \<Rightarrow> int json" where
  "error_body e = JObject [(''error'', JString e)]"

text \<open>
  \<^verbatim>\<open>typeof req.headers.origin === "string" ? req.headers.origin : ""\<close>, the test
  \<^verbatim>\<open>!req.url\<close>, and the base \<^verbatim>\<open>`http://${req.headers.host || "localhost"}`\<close>.
\<close>

definition request_origin :: "request \<Rightarrow> string" where
  "request_origin req = (case header_origin req of Some s \<Rightarrow> s | None \<Rightarrow> [])"

definition url_missing :: "request \<Rightarrow> bool" where
  "url_missing req = (case req_url req of None \<Rightarrow> True | Some u \<Rightarrow> u = [])"

definition url_base :: "request \<Rightarrow> string" where
  "url_base req =
     ''http://'' @ (case header_host req of
                      None \<Rightarrow> ''localhost''
                    | Some h \<Rightarrow> if h = [] then ''localhost'' else h)"

definition handler :: "config \<Rightarrow> world \<Rightarrow> nat \<Rightarrow> request \<Rightarrow> handled" where
  "handler cfg w now req =
     (let requestOrigin = request_origin req;
          hs = jsonHeaders cfg requestOrigin
      in
        if req_method req = ''OPTIONS'' then Replied \<lparr> code = 204, headers = hs, body = None \<rparr>
        else if url_missing req
        then Replied \<lparr> code = 400, headers = hs, body = Some (error_body ''missing_url'') \<rparr>
        else
          (case URL_pathname w (case req_url req of Some u \<Rightarrow> u | None \<Rightarrow> []) (url_base req) of
             None \<Rightarrow> Failed (JsError ''Invalid URL'')
           | Some pathname \<Rightarrow>
               if req_method req \<noteq> ''GET''
               then Replied \<lparr> code = 405, headers = hs,
                              body = Some (error_body ''method_not_allowed'') \<rparr>
               else if pathname = ''/healthz''
               then Replied \<lparr> code = 200, headers = hs,
                              body = Some (JObject [ (''ok'', JBool True),
                                       (''uptime_s'', JNumber (Math_round (process_uptime w))) ]) \<rparr>
               else if pathname = ''/endpoint-status''
               then
                 (case runChecks cfg w now of
                    Returned payload t \<Rightarrow>
                      Replied \<lparr> code = 200, headers = hs, body = Some (report_json payload) \<rparr>
                  | Threw err t \<Rightarrow>
                      Replied \<lparr> code = 500, headers = hs,
                                body = Some (JObject [ (''error'', JString ''status_check_failed''),
                                         (''detail'', JString (case err of
                                                                  JsError m \<Rightarrow> m
                                                                | NonError \<Rightarrow> ''unknown error'')) ]) \<rparr>
                  | Unsettled \<Rightarrow> Waiting)
               else Replied \<lparr> code = 404, headers = hs, body = Some (error_body ''not_found'') \<rparr>))"

section \<open>Auxiliary notions for the statements\<close>

text \<open>The entry that the loop of \<^verbatim>\<open>runChecks\<close> stores for a completed probe.\<close>

fun entry_of :: "int completion \<Rightarrow> probe_outcome option" where
  "entry_of (Returned latencyMs t) = Some (up_entry latencyMs)"
| "entry_of (Threw err t) = Some (down_entry err)"
| "entry_of Unsettled = None"


text \<open>What the world answers to the one request that the probe of a descriptor makes.\<close>

fun probe_input :: "world \<Rightarrow> check \<Rightarrow> fetch_response promise + socket_event" where
  "probe_input w (Jsonrpc i u) = Inl (fetch w u (Some jsonrpc_init))"
| "probe_input w (Tendermint i u) = Inl (fetch w (u @ ''/status'') None)"
| "probe_input w (Tcp i h p) = Inr (socket_events w h p)"

text \<open>The header of a reply, as a browser reads it.\<close>

definition allow_origin_header :: "reply \<Rightarrow> string option" where
  "allow_origin_header r = map_of (headers r) ''access-control-allow-origin''"

section \<open>A concrete deployment\<close>

text \<open>
  The default configuration, and a world in which the main network answers, the test
  network's EVM node reports a JSON-RPC error, its Comet node answers 503 and its gRPC
  port stays silent. Its wall clock is never set: it reads the monotonic time.
\<close>

definition default_config :: config where
  "default_config = \<lparr> process_env = (\<lambda>name. None), REQUEST_TIMEOUT_MS = 7000 \<rparr>"

definition cors_config :: "string \<Rightarrow> config" where
  "cors_config v =
     \<lparr> process_env = (\<lambda>name. if name = ''CORS_ORIGIN'' then Some v else None),
       REQUEST_TIMEOUT_MS = 7000 \<rparr>"

text \<open>
  The URL parser of the sample world answers as \<^verbatim>\<open>new URL(input, base).pathname\<close>
  does on a class of inputs and refuses every other input (which says nothing of the
  real constructor there). The constructor throws when the host of the base holds a
  space, and when the input is \<^verbatim>\<open>//\<close> (no host follows the two slashes). When the base
  is \<^verbatim>\<open>http://\<close> and a host of dot-separated labels of lower-case letters, and the
  input is a plain path (one leading slash, then letters, digits, \<^verbatim>\<open>-\<close>, \<^verbatim>\<open>_\<close>,
  \<^verbatim>\<open>.\<close> and \<^verbatim>\<open>/\<close>) with an optional query or fragment, the pathname is that path with
  its dot segments resolved as the URL standard does: \<^verbatim>\<open>.\<close> is dropped, \<^verbatim>\<open>..\<close>
  removes the segment before it, and either of them in the last place leaves an empty
  last segment.
\<close>

fun split_on :: "char \<Rightarrow> string \<Rightarrow> string list" where
  "split_on sep [] = [[]]"
| "split_on sep (c # cs) =
     (if c = sep then [] # split_on sep cs
      else (case split_on sep cs of
              [] \<Rightarrow> [[c]]
            | p # ps \<Rightarrow> (c # p) # ps))"

fun resolve_segments :: "string list \<Rightarrow> string list \<Rightarrow> string list" where
  "resolve_segments path [] = path"
| "resolve_segments path [seg] =
     (if seg = ''..'' then butlast path @ [[]]
      else if seg = ''.'' then path @ [[]]
      else path @ [seg])"
| "resolve_segments path (seg # others) =
     resolve_segments
       (if seg = ''..'' then butlast path else if seg = ''.'' then path else path @ [seg]) others"

definition plain_host :: "string \<Rightarrow> bool" where
  "plain_host h =
     list_all (\<lambda>l. l \<noteq> [] \<and> list_all (\<lambda>c. c \<in> set ''abcdefghijklmnopqrstuvwxyz'') l)
       (split_on CHR ''.'' h)"

definition plain_path :: "string \<Rightarrow> bool" where
  "plain_path p =
     (p \<noteq> [] \<and> hd p = CHR ''/'' \<and> take 2 p \<noteq> ''//'' \<and>
      list_all (\<lambda>c. c \<in> set ''abcdefghijklmnopqrstuvwxyzABCDEFGHIJKLMNOPQRSTUVWXYZ0123456789-_./'') p)"

definition origin_form_pathname :: "string \<Rightarrow> string \<Rightarrow> string option" where
  "origin_form_pathname input base =
     (let p = takeWhile (\<lambda>c. c \<noteq> CHR ''?'' \<and> c \<noteq> CHR ''#'') input in
      if CHR '' '' \<in> set base then None
      else if input = ''//'' then None
      else if take 7 base = ''http://'' \<and> plain_host (drop 7 base) \<and> plain_path p
      then Some (concat (map (\<lambda>seg. CHR ''/'' # seg)
                   (resolve_segments [] (tl (split_on CHR ''/'' p)))))
      else None)"

definition number_one :: parsed_number where
  "number_one = Parsed_number False ''1''"

definition version_reply :: parsed where
  "version_reply =
     JObject [(''jsonrpc'', JString ''2.0''), (''id'', JNumber number_one), (''result'', JString ''v1'')]"

definition error_reply :: parsed where
  "error_reply =
     JObject [ (''jsonrpc'', JString ''2.0''), (''id'', JNumber number_one),
               (''error'', JObject [ (''code'', JNumber (Parsed_number False ''-32601'')),
                                     (''message'', JString ''method not found'') ]) ]"

definition null_error_reply :: parsed where
  "null_error_reply =
     JObject [(''result'', JString ''v1''), (''error'', JNull), (''id'', JNumber number_one)]"

definition sample_fetch :: "string \<Rightarrow> fetch_init option \<Rightarrow> fetch_response promise" where
  "sample_fetch u i =
     (if u = ''https://evm-rpc.infinitedrive.xyz''
      then Fulfilled 120 \<lparr> res_status = 200, res_json = Fulfilled 3 version_reply \<rparr>
      else if u = ''https://comet-rpc.infinitedrive.xyz/status''
      then Fulfilled 85 \<lparr> res_status = 200, res_json = Pending \<rparr>
      else if u = ''https://evm-rpc-testnet.infinitedrive.xyz''
      then Fulfilled 40 \<lparr> res_status = 200, res_json = Fulfilled 2 error_reply \<rparr>
      else if u = ''https://comet-rpc-testnet.infinitedrive.xyz/status''
      then Fulfilled 20 \<lparr> res_status = 503, res_json = Pending \<rparr>
      else Rejected 15 (JsError ''fetch failed''))"

definition sample_world :: world where
  "sample_world =
     \<lparr> fetch = sample_fetch,
       socket_events = (\<lambda>h p. if h = ''grpc.infinitedrive.xyz'' then Connect 30 else NoEvent),
       URL_pathname = origin_form_pathname,
       uptime_ns = 1500000000,
       Date_now = (\<lambda>t. int t),
       toISOString = (\<lambda>t. ''2026-02-24T00:00:00.000Z'') \<rparr>"






text \<open>
  A JSON-RPC node that sends its response head at once and its body after eight seconds,
  one that never finishes the body, and one that answers in the JSON-RPC 1.0 style, with
  a \<^verbatim>\<open>null\<close> error beside the result.
\<close>

definition slow_body_world :: world where
  "slow_body_world =
     sample_world \<lparr> fetch := (\<lambda>u i. Fulfilled 10 \<lparr> res_status = 200, res_json = Fulfilled 8000 version_reply \<rparr>) \<rparr>"

definition endless_body_world :: world where
  "endless_body_world =
     sample_world \<lparr> fetch := (\<lambda>u i. Fulfilled 10 \<lparr> res_status = 200, res_json = Pending \<rparr>) \<rparr>"


text \<open>
  The sample world where only the test network's EVM node never finishes its body: the
  other five endpoints answer as before.
\<close>

definition stalled_testnet_world :: world where
  "stalled_testnet_world =
     sample_world \<lparr> fetch :=
       (\<lambda>u i. if u = ''https://evm-rpc-testnet.infinitedrive.xyz''
              then Fulfilled 40 \<lparr> res_status = 200, res_json = Pending \<rparr>
              else sample_fetch u i) \<rparr>"







text \<open>A timeout above the largest delay of a timer, which fires after one millisecond.\<close>

definition huge_timeout_config :: config where
  "huge_timeout_config = \<lparr> process_env = (\<lambda>name. None), REQUEST_TIMEOUT_MS = 2147483648 \<rparr>"

text \<open>Requests to the host \<^verbatim>\<open>status.example\<close>, and one whose \<^verbatim>\<open>Host\<close> header holds a space.\<close>

definition sample_request :: "string \<Rightarrow> string option \<Rightarrow> request" where
  "sample_request m u =
     \<lparr> req_method = m, req_url = u, header_origin = None, header_host = Some ''status.example'' \<rparr>"

definition bad_host_request :: "string \<Rightarrow> string \<Rightarrow> request" where
  "bad_host_request m u =
     \<lparr> req_method = m, req_url = Some u, header_origin = None, header_host = Some ''a b'' \<rparr>"

section \<open>Printing and evaluation\<close>

lemma show_nat_digit: "n < 10 \<Longrightarrow> show_nat n = [digit_char n]"
  by (simp add: show_nat.simps)

lemma show_nat_more: "10 \<le> n \<Longrightarrow> show_nat n = show_nat (n div 10) @ [digit_char (n mod 10)]"
  by (subst show_nat.simps) simp

lemmas probe_defs = probeJsonRpc_def probeTendermintStatus_def probeTcp_def withTimeout_def
  reject_after_def setTimeout_delay_def res_ok_def timeout_message_def new_Error_def Let_def

lemmas print_defs = show_int_def show_nat_digit show_nat_more digit_char_def

lemmas sample_defs = default_config_def sample_world_def sample_fetch_def version_reply_def
  error_reply_def null_error_reply_def number_one_def

section \<open>Timers\<close>



lemma withTimeout_late:
  "\<not> settled_by p (setTimeout_delay ms) \<Longrightarrow>
   withTimeout p ms = Rejected (setTimeout_delay ms) (JsError (timeout_message ms))"
  by (simp add: withTimeout_def reject_after_def)

lemma setTimeout_delay_in_range: "1 \<le> ms \<Longrightarrow> ms \<le> 2147483647 \<Longrightarrow> setTimeout_delay ms = nat ms"
  by (simp add: setTimeout_delay_def)

lemma setTimeout_delay_out_of_range: "ms < 1 \<or> 2147483647 < ms \<Longrightarrow> setTimeout_delay ms = 1"
  by (simp add: setTimeout_delay_def)

section \<open>What a probe measures, and when it completes\<close>













text \<open>
  The operation under the timer: when it has not settled by the time the timer fires,
  the probe of any kind throws the timeout error at that moment.
\<close>

lemma operation_timeout:
  assumes "case probe_input w c of
             Inl p \<Rightarrow> \<not> settled_by p (setTimeout_delay (REQUEST_TIMEOUT_MS cfg))
           | Inr ev \<Rightarrow> \<not> settled_by (socket_promise ev) (setTimeout_delay (REQUEST_TIMEOUT_MS cfg))"
  shows "run_probe cfg w c now
           = Threw (JsError (''timeout after '' @ show_int (REQUEST_TIMEOUT_MS cfg) @ ''ms''))
               (now + setTimeout_delay (REQUEST_TIMEOUT_MS cfg))"
  using assms
  by (cases c)
     (simp_all add: probeJsonRpc_def probeTendermintStatus_def probeTcp_def withTimeout_late
        timeout_message_def Let_def)

text \<open>
  A timeout of 2147483648 ms is above the range of a timer, which then fires after one
  millisecond: a port that connects after 300 ms is reported as timed out.
\<close>

lemma huge_timeout_fires_at_once:
  "run_probe huge_timeout_config sample_world (Tcp ''infinite-grpc'' ''grpc.infinitedrive.xyz'' ''443'') 0
     = Threw (JsError ''timeout after 2147483648ms'') 1"
  by (simp add: probe_defs print_defs sample_defs huge_timeout_config_def)

section \<open>The object \<^verbatim>\<open>statuses\<close>\<close>




lemma CHECKS_ids:
  "map check_id (CHECKS cfg) =
     [''infinite-evm'', ''infinite-comet'', ''infinite-grpc'', ''infinite-evm-testnet'',
      ''infinite-comet-testnet'', ''infinite-grpc-testnet'']"
  by (simp add: CHECKS_def)


lemma CHECKS_ids_no_index: "list_all (\<lambda>k. \<not> array_index_key k) (map check_id (CHECKS cfg))"
  unfolding CHECKS_ids by (simp add: array_index_key_def)

section \<open>The loop of \<^verbatim>\<open>runChecks\<close>\<close>












lemmas run_defs = runChecks_def CHECKS_def env_or_def up_entry_def down_entry_def





section \<open>The branches of the request handler\<close>

lemma handler_options:
  "req_method req = ''OPTIONS'' \<Longrightarrow>
   handler cfg w now req
     = Replied \<lparr> code = 204, headers = jsonHeaders cfg (request_origin req), body = None \<rparr>"
  by (simp add: handler_def)

lemma handler_missing_url:
  "req_method req \<noteq> ''OPTIONS'' \<Longrightarrow> url_missing req \<Longrightarrow>
   handler cfg w now req
     = Replied \<lparr> code = 400, headers = jsonHeaders cfg (request_origin req),
                 body = Some (JObject [(''error'', JString ''missing_url'')]) \<rparr>"
  by (simp add: handler_def error_body_def)

lemma handler_invalid_url:
  "req_method req \<noteq> ''OPTIONS'' \<Longrightarrow> req_url req = Some u \<Longrightarrow> u \<noteq> [] \<Longrightarrow>
   URL_pathname w u (url_base req) = None \<Longrightarrow>
   handler cfg w now req = Failed (JsError ''Invalid URL'')"
  by (simp add: handler_def url_missing_def)

lemma handler_method_not_allowed:
  "req_method req \<noteq> ''OPTIONS'' \<Longrightarrow> req_method req \<noteq> ''GET'' \<Longrightarrow>
   req_url req = Some u \<Longrightarrow> u \<noteq> [] \<Longrightarrow> URL_pathname w u (url_base req) = Some p \<Longrightarrow>
   handler cfg w now req
     = Replied \<lparr> code = 405, headers = jsonHeaders cfg (request_origin req),
                 body = Some (JObject [(''error'', JString ''method_not_allowed'')]) \<rparr>"
  by (simp add: handler_def url_missing_def error_body_def)

lemma handler_healthz:
  "req_method req = ''GET'' \<Longrightarrow> req_url req = Some u \<Longrightarrow> u \<noteq> [] \<Longrightarrow>
   URL_pathname w u (url_base req) = Some ''/healthz'' \<Longrightarrow>
   handler cfg w now req
     = Replied \<lparr> code = 200, headers = jsonHeaders cfg (request_origin req),
                 body = Some (JObject [ (''ok'', JBool True),
                          (''uptime_s'', JNumber (Math_round (process_uptime w))) ]) \<rparr>"
  by (simp add: handler_def url_missing_def)

lemma handler_not_found:
  "req_method req = ''GET'' \<Longrightarrow> req_url req = Some u \<Longrightarrow> u \<noteq> [] \<Longrightarrow>
   URL_pathname w u (url_base req) = Some p \<Longrightarrow> p \<noteq> ''/healthz'' \<Longrightarrow> p \<noteq> ''/endpoint-status'' \<Longrightarrow>
   handler cfg w now req
     = Replied \<lparr> code = 404, headers = jsonHeaders cfg (request_origin req),
                 body = Some (JObject [(''error'', JString ''not_found'')]) \<rparr>"
  by (simp add: handler_def url_missing_def error_body_def)

lemma handler_reply_headers:
  "handler cfg w now req = Replied r \<Longrightarrow> headers r = jsonHeaders cfg (request_origin req)"
  by (auto simp: handler_def Let_def split: if_splits option.splits completion.splits)

lemma Math_round_uptime: "0 \<le> Math_round (process_uptime w)"
  by (simp add: Math_round_def process_uptime_def)

lemma Math_round_nearest: "\<bar>of_int (Math_round x) - x\<bar> \<le> 1 / 2"
  unfolding Math_round_def by linarith

lemma sample_uptime: "Math_round (process_uptime sample_world) = 2"
  by (simp add: Math_round_def process_uptime_def sample_world_def)

lemma sample_request_simps:
  "req_method (sample_request m u) = m"
  "req_url (sample_request m u) = u"
  "request_origin (sample_request m u) = []"
  "url_base (sample_request m u) = ''http://status.example''"
  by (simp_all add: sample_request_def request_origin_def url_base_def)

lemma sample_pathname: "URL_pathname sample_world = origin_form_pathname"
  by (simp add: sample_world_def)

lemma sample_paths:
  "origin_form_pathname ''/healthz'' ''http://status.example'' = Some ''/healthz''"
  "origin_form_pathname ''/endpoint-status'' ''http://status.example'' = Some ''/endpoint-status''"
  "origin_form_pathname ''/nope'' ''http://status.example'' = Some ''/nope''"
  "origin_form_pathname ''//'' ''http://status.example'' = None"
  "origin_form_pathname ''/healthz'' ''http://a b'' = None"
  by (simp_all add: origin_form_pathname_def plain_path_def plain_host_def Let_def)

lemma sample_dot_segments:
  "origin_form_pathname ''/x/../healthz?probe=1'' ''http://status.example'' = Some ''/healthz''"
  "origin_form_pathname ''/a/./b/..'' ''http://localhost'' = Some ''/a/''"
  "origin_form_pathname ''/'' ''http://localhost'' = Some ''/''"
  by (simp_all add: origin_form_pathname_def plain_path_def plain_host_def Let_def)

lemma bad_host_request_simps:
  "req_method (bad_host_request m u) = m"
  "req_url (bad_host_request m u) = Some u"
  "request_origin (bad_host_request m u) = []"
  "url_base (bad_host_request m u) = ''http://a b''"
  by (simp_all add: bad_host_request_def request_origin_def url_base_def)


section \<open>What the handler does once the URL has parsed\<close>

text \<open>
  A \<^verbatim>\<open>GET\<close> request whose URL parses to the path \<^verbatim>\<open>/healthz\<close> is answered with
  status 200 and \<^verbatim>\<open>{ok: true, uptime_s: n}\<close>, where \<open>n\<close> is a non-negative integer, the
  uptime in seconds rounded to the nearest integer, whatever the network answers to the
  probes.
\<close>

lemma healthz_when_parsed:
  assumes "req_method req = ''GET''" and "req_url req = Some u" and "u \<noteq> []"
    and "URL_pathname w u (url_base req) = Some ''/healthz''"
  shows "handler cfg w now req
           = Replied \<lparr> code = 200, headers = jsonHeaders cfg (request_origin req),
                       body = Some (JObject [ (''ok'', JBool True),
                                (''uptime_s'', JNumber (Math_round (process_uptime w))) ]) \<rparr> \<and>
         0 \<le> Math_round (process_uptime w) \<and>
         \<bar>of_int (Math_round (process_uptime w)) - process_uptime w\<bar> \<le> 1 / 2 \<and>
         (\<forall>f s. handler cfg (w \<lparr> fetch := f, socket_events := s \<rparr>) now req = handler cfg w now req)"
proof -
  have here: "handler cfg w now req
           = Replied \<lparr> code = 200, headers = jsonHeaders cfg (request_origin req),
                       body = Some (JObject [ (''ok'', JBool True),
                                (''uptime_s'', JNumber (Math_round (process_uptime w))) ]) \<rparr>"
    using assms by (rule handler_healthz)
  have there: "handler cfg (w \<lparr> fetch := f, socket_events := s \<rparr>) now req = handler cfg w now req" for f s
  proof -
    have "URL_pathname (w \<lparr> fetch := f, socket_events := s \<rparr>) u (url_base req) = Some ''/healthz''"
      using assms(4) by simp
    then have "handler cfg (w \<lparr> fetch := f, socket_events := s \<rparr>) now req
           = Replied \<lparr> code = 200, headers = jsonHeaders cfg (request_origin req),
                       body = Some (JObject [ (''ok'', JBool True),
                                (''uptime_s'', JNumber (Math_round (process_uptime (w \<lparr> fetch := f, socket_events := s \<rparr>)))) ]) \<rparr>"
      using assms(1-3) by (intro handler_healthz)
    then show ?thesis using here by (simp add: process_uptime_def)
  qed
  show ?thesis using here there Math_round_uptime [of w] Math_round_nearest [of "process_uptime w"]
    by blast
qed

text \<open>
  \<^verbatim>\<open>OPTIONS\<close> is answered with 204 before the URL is looked at. For every other
  method, once the URL has parsed, the method is tested before the path: a method that is
  not \<^verbatim>\<open>GET\<close> is answered with 405 whatever the path is.
\<close>

lemma method_tested_before_path:
  "(req_method req = ''OPTIONS'' \<longrightarrow>
      (\<forall>target parse.
         handler cfg (w \<lparr> URL_pathname := parse \<rparr>) now (req \<lparr> req_url := target \<rparr>)
           = Replied \<lparr> code = 204, headers = jsonHeaders cfg (request_origin req), body = None \<rparr>)) \<and>
   (req_method req \<noteq> ''OPTIONS'' \<and> req_method req \<noteq> ''GET'' \<and> req_url req = Some u \<and> u \<noteq> [] \<and>
    URL_pathname w u (url_base req) = Some p \<longrightarrow>
      handler cfg w now req
        = Replied \<lparr> code = 405, headers = jsonHeaders cfg (request_origin req),
                    body = Some (JObject [(''error'', JString ''method_not_allowed'')]) \<rparr>)"
proof (intro conjI impI allI)
  fix target parse
  assume "req_method req = ''OPTIONS''"
  then have "req_method (req \<lparr> req_url := target \<rparr>) = ''OPTIONS''" by simp
  then have "handler cfg (w \<lparr> URL_pathname := parse \<rparr>) now (req \<lparr> req_url := target \<rparr>)
      = Replied \<lparr> code = 204, headers = jsonHeaders cfg (request_origin (req \<lparr> req_url := target \<rparr>)),
                  body = None \<rparr>"
    by (rule handler_options)
  then show "handler cfg (w \<lparr> URL_pathname := parse \<rparr>) now (req \<lparr> req_url := target \<rparr>)
      = Replied \<lparr> code = 204, headers = jsonHeaders cfg (request_origin req), body = None \<rparr>"
    by (simp add: request_origin_def)
next
  assume "req_method req \<noteq> ''OPTIONS'' \<and> req_method req \<noteq> ''GET'' \<and> req_url req = Some u \<and> u \<noteq> [] \<and>
    URL_pathname w u (url_base req) = Some p"
  then show "handler cfg w now req
        = Replied \<lparr> code = 405, headers = jsonHeaders cfg (request_origin req),
                    body = Some (JObject [(''error'', JString ''method_not_allowed'')]) \<rparr>"
    using handler_method_not_allowed [of req u w p cfg now] by blast
qed

section \<open>Splitting and trimming\<close>

lemma split_comma_not_empty: "split_comma s \<noteq> []"
  by (induction s) (auto split: list.splits)

lemma split_comma_no_comma: "p \<in> set (split_comma s) \<Longrightarrow> CHR '','' \<notin> set p"
proof (induction s arbitrary: p)
  case Nil
  then show ?case by simp
next
  case (Cons c cs)
  show ?case
  proof (cases "c = CHR '',''")
    case True
    then show ?thesis using Cons by auto
  next
    case False
    obtain q qs where q: "split_comma cs = q # qs"
      using split_comma_not_empty [of cs] by (cases "split_comma cs") auto
    then have "p = c # q \<or> p \<in> set qs" using Cons.prems False by simp
    then show ?thesis using Cons.IH [of q] Cons.IH [of p] q False by auto
  qed
qed

lemma split_comma_chars: "p \<in> set (split_comma s) \<Longrightarrow> set p \<subseteq> set s"
proof (induction s arbitrary: p)
  case Nil
  then show ?case by simp
next
  case (Cons c cs)
  show ?case
  proof (cases "c = CHR '',''")
    case True
    then show ?thesis using Cons by auto
  next
    case False
    obtain q qs where q: "split_comma cs = q # qs"
      using split_comma_not_empty [of cs] by (cases "split_comma cs") auto
    then have "p = c # q \<or> p \<in> set qs" using Cons.prems False by simp
    then show ?thesis using Cons.IH [of q] Cons.IH [of p] q by auto
  qed
qed

lemma split_comma_piece: "CHR '','' \<notin> set e \<Longrightarrow> split_comma e = [e]"
  by (induction e) auto

lemma split_comma_append:
  "CHR '','' \<notin> set e \<Longrightarrow> split_comma (e @ CHR '','' # rest) = e # split_comma rest"
  by (induction e) auto

lemma split_comma_join:
  "es \<noteq> [] \<Longrightarrow> \<forall>e \<in> set es. CHR '','' \<notin> set e \<Longrightarrow> split_comma (join_comma es) = es"
proof (induction es rule: join_comma.induct)
  case 1
  then show ?case by simp
next
  case (2 s)
  then show ?case by (simp add: split_comma_piece)
next
  case (3 s t ss)
  then show ?case by (simp add: split_comma_append)
qed

lemma join_comma_split: "join_comma (split_comma s) = s"
proof (induction s)
  case Nil
  then show ?case by simp
next
  case (Cons c cs)
  obtain q qs where q: "split_comma cs = q # qs"
    using split_comma_not_empty [of cs] by (cases "split_comma cs") auto
  show ?case
  proof (cases "c = CHR '',''")
    case True
    then show ?thesis using Cons q by simp
  next
    case False
    then show ?thesis using Cons q by (cases qs) auto
  qed
qed

lemma trim_white: "\<forall>c \<in> set s. is_white_space c \<Longrightarrow> trim s = []"
proof -
  assume "\<forall>c \<in> set s. is_white_space c"
  then have "dropWhile is_white_space s = []" by simp
  then show ?thesis unfolding trim_def by (simp only: dropWhile.simps rev.simps)
qed

lemma trim_padded:
  assumes "\<forall>c \<in> set pad1. is_white_space c" and "\<forall>c \<in> set pad2. is_white_space c"
    and "core \<noteq> []" and "\<not> is_white_space (hd core)" and "\<not> is_white_space (last core)"
  shows "trim (pad1 @ core @ pad2) = core"
proof -
  have front: "dropWhile is_white_space (pad1 @ core @ pad2) = core @ pad2"
    using assms(1,3,4) by (cases core) (simp_all add: dropWhile_append)
  have "rev (core @ pad2) = rev pad2 @ rev core" by simp
  moreover have "dropWhile is_white_space (rev pad2 @ rev core) = rev core"
    using assms(2,3,5) by (cases "rev core") (auto simp: dropWhile_append last_rev [symmetric] hd_rev)
  ultimately show ?thesis by (simp add: trim_def front)
qed

lemma white_space_chars:
  "is_white_space CHR '' ''" "\<not> is_white_space CHR '',''" "\<not> is_white_space CHR ''h''"
  "\<not> is_white_space CHR ''m''"
  by (simp_all add: is_white_space_def)

lemma ALLOW_ORIGINS_of_entries:
  "CORS_ORIGIN cfg = join_comma es \<Longrightarrow> es \<noteq> [] \<Longrightarrow> \<forall>e \<in> set es. CHR '','' \<notin> set e \<Longrightarrow>
   ALLOW_ORIGINS cfg = filter (\<lambda>v. v \<noteq> []) (map trim es)"
  by (simp add: ALLOW_ORIGINS_def split_comma_join)

lemma ALLOW_ORIGINS_blank:
  assumes "\<forall>c \<in> set (CORS_ORIGIN cfg). c = CHR '','' \<or> is_white_space c"
  shows "ALLOW_ORIGINS cfg = []"
proof -
  have "trim p = []" if "p \<in> set (split_comma (CORS_ORIGIN cfg))" for p
  proof (rule trim_white, rule ballI)
    fix c
    assume "c \<in> set p"
    then have "c \<in> set (CORS_ORIGIN cfg)" and "c \<noteq> CHR '',''"
      using that split_comma_chars [of p "CORS_ORIGIN cfg"] split_comma_no_comma [of p "CORS_ORIGIN cfg"]
      by auto
    then show "is_white_space c" using assms by auto
  qed
  then show ?thesis by (simp add: ALLOW_ORIGINS_def filter_empty_conv)
qed

lemma allow_origin_of_reply:
  "handler cfg w now req = Replied r \<Longrightarrow>
   allow_origin_header r = Some (resolveAllowedOrigin (ALLOW_ORIGINS cfg) (request_origin req))"
  using handler_reply_headers [of cfg w now req r]
  by (simp add: allow_origin_header_def jsonHeaders_def)

section \<open>Properties of the specification\<close>



text \<open>
  C2. The operation that a probe awaits under \<^verbatim>\<open>withTimeout\<close> is cut off at
  \<^verbatim>\<open>REQUEST_TIMEOUT_MS\<close> for every kind of check (\<open>operation_timeout\<close> above). The
  JSON-RPC probe, however, awaits the response head under the timer and then the body,
  \<^verbatim>\<open>await res.json()\<close>, under none. With a timeout of 7000 ms, a node that sends the
  head after 10 ms and the body 8000 ms later is reported \<^verbatim>\<open>UP\<close> with a latency of
  8010 ms, and a node that never ends its body keeps \<^verbatim>\<open>runChecks()\<close> from returning.
\<close>

theorem probeJsonRpc_body_outside_timeout:
  "REQUEST_TIMEOUT_MS default_config = 7000 \<and>
   probeJsonRpc default_config slow_body_world ''https://evm-rpc.infinitedrive.xyz'' 0
     = Returned 8010 8010 \<and>
   entry_of (probeJsonRpc default_config slow_body_world ''https://evm-rpc.infinitedrive.xyz'' 0)
     = Some \<lparr> status = ''UP'', detail = ''Latency 8010ms'', latency_ms = Some 8010 \<rparr> \<and>
   probeJsonRpc default_config endless_body_world ''https://evm-rpc.infinitedrive.xyz'' 0 = Unsettled \<and>
   runChecks default_config endless_body_world 0 = Unsettled"
  by (simp add: runChecks_def CHECKS_def env_or_def probe_defs print_defs sample_defs up_entry_def
      slow_body_world_def endless_body_world_def)

text \<open>
  C3. CORS origin resolution, for every allow-list and every request origin (the empty
  string when the request has none), in this order of precedence: an empty allow-list
  gives \<^verbatim>\<open>*\<close>; an allow-list that contains \<^verbatim>\<open>*\<close> gives \<^verbatim>\<open>*\<close>; an absent request
  origin gives the first configured origin; a request origin that is in the allow-list is
  echoed; any other origin gives the first configured origin and never the request's own.
\<close>

theorem resolveAllowedOrigin_rules:
  "(allow = [] \<longrightarrow> resolveAllowedOrigin allow requestOrigin = ''*'') \<and>
   (''*'' \<in> set allow \<longrightarrow> resolveAllowedOrigin allow requestOrigin = ''*'') \<and>
   (allow \<noteq> [] \<and> ''*'' \<notin> set allow \<and> requestOrigin = [] \<longrightarrow>
      resolveAllowedOrigin allow requestOrigin = hd allow) \<and>
   (allow \<noteq> [] \<and> ''*'' \<notin> set allow \<and> requestOrigin \<noteq> [] \<and> requestOrigin \<in> set allow \<longrightarrow>
      resolveAllowedOrigin allow requestOrigin = requestOrigin) \<and>
   (allow \<noteq> [] \<and> ''*'' \<notin> set allow \<and> requestOrigin \<notin> set allow \<longrightarrow>
      resolveAllowedOrigin allow requestOrigin = hd allow \<and>
      resolveAllowedOrigin allow requestOrigin \<noteq> requestOrigin)"
  by (cases allow) (auto simp: resolveAllowedOrigin_def)

theorem resolveAllowedOrigin_rules_witness:
  "resolveAllowedOrigin [] ''https://b.com'' = ''*'' \<and>
   resolveAllowedOrigin [''https://a.com'', ''*''] ''https://b.com'' = ''*'' \<and>
   resolveAllowedOrigin [''https://a.com'', ''https://b.com''] [] = ''https://a.com'' \<and>
   resolveAllowedOrigin [''https://a.com'', ''https://b.com''] ''https://b.com'' = ''https://b.com'' \<and>
   resolveAllowedOrigin [''https://a.com'', ''https://b.com''] ''https://evil.com'' = ''https://a.com''"
  using resolveAllowedOrigin_rules [of "[]" "''https://b.com''"]
    resolveAllowedOrigin_rules [of "[''https://a.com'', ''*'']" "''https://b.com''"]
    resolveAllowedOrigin_rules [of "[''https://a.com'', ''https://b.com'']" "[]"]
    resolveAllowedOrigin_rules [of "[''https://a.com'', ''https://b.com'']" "''https://b.com''"]
    resolveAllowedOrigin_rules [of "[''https://a.com'', ''https://b.com'']" "''https://evil.com''"]
  by simp




text \<open>
  C5. The loop of \<^verbatim>\<open>runChecks\<close> awaits the probes in turn, and the JSON-RPC probe
  awaits the body of its response under no timer. In the sample world where only the
  test network's EVM node never finishes its body, that one check keeps
  \<^verbatim>\<open>runChecks()\<close> from returning, for every start of the run: the three checks before
  it had completed (the first with a latency of 123 ms), the two after it are never
  probed although their probes would complete, no check gets an entry, and the handler
  of \<^verbatim>\<open>/endpoint-status\<close> never replies.
\<close>

theorem runChecks_stalled_body_blocks_all:
  "run_probe default_config stalled_testnet_world
       (Jsonrpc ''infinite-evm-testnet'' ''https://evm-rpc-testnet.infinitedrive.xyz'') now = Unsettled \<and>
   run_probe default_config stalled_testnet_world
       (Jsonrpc ''infinite-evm'' ''https://evm-rpc.infinitedrive.xyz'') now
     = Returned 123 (now + 123) \<and>
   run_probe default_config stalled_testnet_world
       (Tendermint ''infinite-comet-testnet'' ''https://comet-rpc-testnet.infinitedrive.xyz'') now
     = Threw (JsError ''HTTP 503'') (now + 20) \<and>
   run_probe default_config stalled_testnet_world
       (Tcp ''infinite-grpc-testnet'' ''grpc-testnet.infinitedrive.xyz'' ''443'') now
     = Threw (JsError ''timeout after 7000ms'') (now + 7000) \<and>
   runChecks default_config stalled_testnet_world now = Unsettled \<and>
   handler default_config stalled_testnet_world now (sample_request ''GET'' (Some ''/endpoint-status''))
     = Waiting"
  by (simp add: handler_def url_missing_def sample_request_def url_base_def request_origin_def
      sample_paths
      run_defs probe_defs print_defs sample_defs stalled_testnet_world_def)




text \<open>
  C7. Once the URL of a \<^verbatim>\<open>GET /healthz\<close> request has parsed, the reply is 200 with
  \<^verbatim>\<open>{ok: true, uptime_s: n}\<close> (\<open>healthz_when_parsed\<close> above). But the handler builds
  \<^verbatim>\<open>new URL(req.url, base)\<close>, with the base made of the \<^verbatim>\<open>Host\<close> header, before it
  looks at the route and under no \<^verbatim>\<open>try\<close>. For \<^verbatim>\<open>GET /healthz\<close> with the header
  \<^verbatim>\<open>Host: a b\<close> the constructor throws: the promise of the handler is rejected and no
  reply is sent, where the same request to the host \<^verbatim>\<open>status.example\<close> is answered
  with 200.
\<close>

theorem healthz_bad_host_no_reply:
  "req_method (bad_host_request ''GET'' ''/healthz'') = ''GET'' \<and>
   req_url (bad_host_request ''GET'' ''/healthz'') = Some ''/healthz'' \<and>
   url_base (bad_host_request ''GET'' ''/healthz'') = ''http://a b'' \<and>
   URL_pathname sample_world ''/healthz'' ''http://a b'' = None \<and>
   handler default_config sample_world now (bad_host_request ''GET'' ''/healthz'')
     = Failed (JsError ''Invalid URL'') \<and>
   handler default_config sample_world now (sample_request ''GET'' (Some ''/healthz''))
     = Replied \<lparr> code = 200, headers = jsonHeaders default_config [],
                 body = Some (JObject [(''ok'', JBool True), (''uptime_s'', JNumber 2)]) \<rparr>"
  by (simp add: handler_def url_missing_def bad_host_request_simps sample_request_simps
      sample_pathname sample_paths sample_uptime)

text \<open>
  C8, as the code has it. The handler answers \<^verbatim>\<open>OPTIONS\<close> first and tests the method
  before it looks at the path. A \<^verbatim>\<open>GET\<close> request whose URL parses to a path that is
  not a recognized route is answered with status 404 and the body
  \<^verbatim>\<open>{"error": "not_found"}\<close>; a request whose URL parses to a known path and whose
  method is neither \<^verbatim>\<open>GET\<close> nor \<^verbatim>\<open>OPTIONS\<close> is answered with status 405 and the body
  \<^verbatim>\<open>{"error": "method_not_allowed"}\<close>. (A URL parses when \<^verbatim>\<open>req.url\<close> is not empty
  and \<^verbatim>\<open>new URL(req.url, base)\<close> does not throw; what happens when it throws is the
  matter of C7 and C9.)
\<close>

theorem not_found_and_method_not_allowed:
  "req_url req = Some u \<and> u \<noteq> [] \<and> URL_pathname w u (url_base req) = Some p \<longrightarrow>
     (req_method req = ''GET'' \<and> p \<noteq> ''/healthz'' \<and> p \<noteq> ''/endpoint-status'' \<longrightarrow>
        handler cfg w now req
          = Replied \<lparr> code = 404, headers = jsonHeaders cfg (request_origin req),
                      body = Some (JObject [(''error'', JString ''not_found'')]) \<rparr>) \<and>
     (req_method req \<noteq> ''GET'' \<and> req_method req \<noteq> ''OPTIONS'' \<and>
      (p = ''/healthz'' \<or> p = ''/endpoint-status'') \<longrightarrow>
        handler cfg w now req
          = Replied \<lparr> code = 405, headers = jsonHeaders cfg (request_origin req),
                      body = Some (JObject [(''error'', JString ''method_not_allowed'')]) \<rparr>)"
  using handler_not_found [of req u w p cfg now] handler_method_not_allowed [of req u w p cfg now]
  by blast

theorem not_found_and_method_not_allowed_witness:
  "handler default_config sample_world 0 (sample_request ''GET'' (Some ''/nope''))
     = Replied \<lparr> code = 404, headers = jsonHeaders default_config [],
                 body = Some (JObject [(''error'', JString ''not_found'')]) \<rparr> \<and>
   handler default_config sample_world 0 (sample_request ''POST'' (Some ''/endpoint-status''))
     = Replied \<lparr> code = 405, headers = jsonHeaders default_config [],
                 body = Some (JObject [(''error'', JString ''method_not_allowed'')]) \<rparr>"
proof -
  let ?get = "sample_request ''GET'' (Some ''/nope'')"
  let ?post = "sample_request ''POST'' (Some ''/endpoint-status'')"
  have g: "req_url ?get = Some ''/nope'' \<and> ''/nope'' \<noteq> [] \<and>
      URL_pathname sample_world ''/nope'' (url_base ?get) = Some ''/nope''"
    by (simp add: sample_request_simps sample_pathname sample_paths)
  have g': "req_method ?get = ''GET'' \<and> ''/nope'' \<noteq> ''/healthz'' \<and> ''/nope'' \<noteq> ''/endpoint-status''"
    by (simp add: sample_request_simps)
  have p: "req_url ?post = Some ''/endpoint-status'' \<and> ''/endpoint-status'' \<noteq> [] \<and>
      URL_pathname sample_world ''/endpoint-status'' (url_base ?post) = Some ''/endpoint-status''"
    by (simp add: sample_request_simps sample_pathname sample_paths)
  have p': "req_method ?post \<noteq> ''GET'' \<and> req_method ?post \<noteq> ''OPTIONS'' \<and>
      (''/endpoint-status'' = ''/healthz'' \<or> ''/endpoint-status'' = ''/endpoint-status'')"
    by (simp add: sample_request_simps)
  have "handler default_config sample_world 0 ?get
     = Replied \<lparr> code = 404, headers = jsonHeaders default_config (request_origin ?get),
                 body = Some (JObject [(''error'', JString ''not_found'')]) \<rparr>"
    by (rule not_found_and_method_not_allowed
        [of ?get "''/nope''" sample_world "''/nope''" default_config 0,
          THEN mp, OF g, THEN conjunct1, THEN mp, OF g'])
  moreover have "handler default_config sample_world 0 ?post
     = Replied \<lparr> code = 405, headers = jsonHeaders default_config (request_origin ?post),
                 body = Some (JObject [(''error'', JString ''method_not_allowed'')]) \<rparr>"
    by (rule not_found_and_method_not_allowed
        [of ?post "''/endpoint-status''" sample_world "''/endpoint-status''" default_config 0,
          THEN mp, OF p, THEN conjunct2, THEN mp, OF p'])
  ultimately show ?thesis by (simp add: sample_request_simps)
qed

text \<open>
  C8, as stated, fails twice: a \<^verbatim>\<open>POST\<close> to a path that is no route is answered with
  405, not 404, and \<^verbatim>\<open>OPTIONS\<close>, which is not \<^verbatim>\<open>GET\<close>, on the known path
  \<^verbatim>\<open>/healthz\<close> is answered with 204, not 405.
\<close>

theorem unknown_path_post_counterexample:
  "URL_pathname sample_world ''/nope'' (url_base (sample_request ''POST'' (Some ''/nope''))) = Some ''/nope'' \<and>
   handler default_config sample_world 0 (sample_request ''POST'' (Some ''/nope''))
     = Replied \<lparr> code = 405, headers = jsonHeaders default_config [],
                 body = Some (JObject [(''error'', JString ''method_not_allowed'')]) \<rparr> \<and>
   URL_pathname sample_world ''/healthz'' (url_base (sample_request ''OPTIONS'' (Some ''/healthz'')))
     = Some ''/healthz'' \<and>
   handler default_config sample_world 0 (sample_request ''OPTIONS'' (Some ''/healthz''))
     = Replied \<lparr> code = 204, headers = jsonHeaders default_config [], body = None \<rparr>"
  by (simp add: handler_def sample_request_simps sample_pathname sample_paths
      url_missing_def error_body_def)

text \<open>
  C9. \<^verbatim>\<open>OPTIONS\<close> is answered with 204 before the URL is looked at, and once the URL
  has parsed a method that is not \<^verbatim>\<open>GET\<close> is answered with 405 whatever the path is
  (\<open>method_tested_before_path\<close> above). But the URL is parsed before the method is
  tested, under no \<^verbatim>\<open>try\<close>: for \<^verbatim>\<open>POST //\<close> the constructor
  \<^verbatim>\<open>new URL("//", base)\<close> throws, the promise of the handler is rejected and no reply
  is sent, where \<^verbatim>\<open>POST /nope\<close> is answered with 405.
\<close>

theorem post_double_slash_no_reply:
  "req_method (sample_request ''POST'' (Some ''//'')) = ''POST'' \<and>
   URL_pathname sample_world ''//'' (url_base (sample_request ''POST'' (Some ''//''))) = None \<and>
   handler default_config sample_world now (sample_request ''POST'' (Some ''//''))
     = Failed (JsError ''Invalid URL'') \<and>
   handler default_config sample_world now (sample_request ''POST'' (Some ''/nope''))
     = Replied \<lparr> code = 405, headers = jsonHeaders default_config [],
                 body = Some (JObject [(''error'', JString ''method_not_allowed'')]) \<rparr>"
  by (simp add: handler_def url_missing_def sample_request_simps sample_pathname sample_paths
      error_body_def)

text \<open>
  C10. The allow-list is \<^verbatim>\<open>CORS_ORIGIN\<close> split at its commas, each piece trimmed, the
  empty pieces dropped: when \<^verbatim>\<open>CORS_ORIGIN\<close> is the text of comma-free entries joined
  by commas, the allow-list is the list of their trimmed texts without the empty ones. So
  an entry that is an origin padded with white space is listed as that origin, and a
  request with exactly that origin has it echoed (when the list has no \<^verbatim>\<open>*\<close>). When
  \<^verbatim>\<open>CORS_ORIGIN\<close> consists of commas and white space only, the allow-list is empty and
  every reply carries \<^verbatim>\<open>access-control-allow-origin: *\<close>.
\<close>

theorem allow_list_split_trim_filter:
  "(CORS_ORIGIN cfg = join_comma es \<and> es \<noteq> [] \<and> (\<forall>e \<in> set es. CHR '','' \<notin> set e) \<longrightarrow>
      ALLOW_ORIGINS cfg = filter (\<lambda>v. v \<noteq> []) (map trim es) \<and>
      (\<forall>pad1 core pad2.
         pad1 @ core @ pad2 \<in> set es \<and> (\<forall>c \<in> set pad1. is_white_space c) \<and>
         (\<forall>c \<in> set pad2. is_white_space c) \<and> core \<noteq> [] \<and> \<not> is_white_space (hd core) \<and>
         \<not> is_white_space (last core) \<longrightarrow>
           core \<in> set (ALLOW_ORIGINS cfg) \<and>
           (''*'' \<notin> set (ALLOW_ORIGINS cfg) \<longrightarrow>
              resolveAllowedOrigin (ALLOW_ORIGINS cfg) core = core))) \<and>
   ((\<forall>c \<in> set (CORS_ORIGIN cfg). c = CHR '','' \<or> is_white_space c) \<longrightarrow>
      ALLOW_ORIGINS cfg = [] \<and>
      (\<forall>w now req r. handler cfg w now req = Replied r \<longrightarrow> allow_origin_header r = Some ''*''))"
proof (intro conjI impI allI)
  assume a: "CORS_ORIGIN cfg = join_comma es \<and> es \<noteq> [] \<and> (\<forall>e \<in> set es. CHR '','' \<notin> set e)"
  then show built: "ALLOW_ORIGINS cfg = filter (\<lambda>v. v \<noteq> []) (map trim es)"
    by (simp add: ALLOW_ORIGINS_of_entries)
  fix pad1 core pad2
  assume b: "pad1 @ core @ pad2 \<in> set es \<and> (\<forall>c \<in> set pad1. is_white_space c) \<and>
         (\<forall>c \<in> set pad2. is_white_space c) \<and> core \<noteq> [] \<and> \<not> is_white_space (hd core) \<and>
         \<not> is_white_space (last core)"
  then have "trim (pad1 @ core @ pad2) = core" by (simp add: trim_padded)
  then have "core \<in> trim ` set es" using b by (metis image_eqI)
  then show listed: "core \<in> set (ALLOW_ORIGINS cfg)" using b built by simp
  assume "''*'' \<notin> set (ALLOW_ORIGINS cfg)"
  then show "resolveAllowedOrigin (ALLOW_ORIGINS cfg) core = core"
    using listed b by (cases "ALLOW_ORIGINS cfg") (auto simp: resolveAllowedOrigin_def)
next
  assume "\<forall>c \<in> set (CORS_ORIGIN cfg). c = CHR '','' \<or> is_white_space c"
  then show empty: "ALLOW_ORIGINS cfg = []" by (rule ALLOW_ORIGINS_blank)
  fix w now req r
  assume "handler cfg w now req = Replied r"
  then show "allow_origin_header r = Some ''*''"
    using allow_origin_of_reply [of cfg w now req r] empty by (simp add: resolveAllowedOrigin_def)
qed

theorem allow_list_split_trim_filter_witness:
  "ALLOW_ORIGINS (cors_config '' https://a.com ,https://b.com'') = [''https://a.com'', ''https://b.com''] \<and>
   resolveAllowedOrigin (ALLOW_ORIGINS (cors_config '' https://a.com ,https://b.com'')) ''https://a.com''
     = ''https://a.com'' \<and>
   ALLOW_ORIGINS (cors_config '' , ,'') = [] \<and>
   (\<exists>r. handler (cors_config '' , ,'') sample_world 0 (sample_request ''GET'' (Some ''/nope'')) = Replied r \<and>
        allow_origin_header r = Some ''*'')"
proof -
  let ?cfg = "cors_config '' https://a.com ,https://b.com''"
  let ?blank = "cors_config '' , ,''"
  let ?es = "['' https://a.com '', ''https://b.com'']"
  let ?req = "sample_request ''GET'' (Some ''/nope'')"
  have a: "CORS_ORIGIN ?cfg = join_comma ?es \<and> ?es \<noteq> [] \<and> (\<forall>e \<in> set ?es. CHR '','' \<notin> set e)"
    by (simp add: CORS_ORIGIN_def env_or_def cors_config_def)
  note first = allow_list_split_trim_filter [of ?cfg ?es, THEN conjunct1, THEN mp, OF a]
  have t1: "trim '' https://a.com '' = ''https://a.com''"
    using trim_padded [of "'' ''" "'' ''" "''https://a.com''"] by (simp add: white_space_chars)
  have t2: "trim ''https://b.com'' = ''https://b.com''"
    using trim_padded [of "[]" "[]" "''https://b.com''"] by (simp add: white_space_chars)
  have list: "ALLOW_ORIGINS ?cfg = [''https://a.com'', ''https://b.com'']"
    using first [THEN conjunct1] by (simp add: t1 t2)
  have b: "'' '' @ ''https://a.com'' @ '' '' \<in> set ?es \<and> (\<forall>c \<in> set '' ''. is_white_space c) \<and>
         (\<forall>c \<in> set '' ''. is_white_space c) \<and> ''https://a.com'' \<noteq> [] \<and>
         \<not> is_white_space (hd ''https://a.com'') \<and> \<not> is_white_space (last ''https://a.com'')"
    by (simp add: white_space_chars)
  have nostar: "''*'' \<notin> set (ALLOW_ORIGINS ?cfg)" unfolding list by simp
  have echo: "resolveAllowedOrigin (ALLOW_ORIGINS ?cfg) ''https://a.com'' = ''https://a.com''"
    by (rule first [THEN conjunct2, THEN spec, THEN spec, THEN spec, THEN mp, OF b,
          THEN conjunct2, THEN mp, OF nostar])
  have c: "\<forall>c \<in> set (CORS_ORIGIN ?blank). c = CHR '','' \<or> is_white_space c"
    by (simp add: CORS_ORIGIN_def env_or_def cors_config_def white_space_chars)
  note second = allow_list_split_trim_filter [of ?blank ?es, THEN conjunct2, THEN mp, OF c]
  have empty: "ALLOW_ORIGINS ?blank = []" by (rule second [THEN conjunct1])
  have reply: "handler ?blank sample_world 0 ?req
      = Replied \<lparr> code = 404, headers = jsonHeaders ?blank (request_origin ?req),
                  body = Some (JObject [(''error'', JString ''not_found'')]) \<rparr>"
    by (rule handler_not_found [of ?req "''/nope''" sample_world "''/nope''"])
       (simp_all add: sample_request_simps sample_pathname sample_paths)
  have "allow_origin_header \<lparr> code = 404, headers = jsonHeaders ?blank (request_origin ?req),
                  body = Some (JObject [(''error'', JString ''not_found'')]) \<rparr> = Some ''*''"
    by (rule second [THEN conjunct2, THEN spec, THEN spec, THEN spec, THEN spec, THEN mp, OF reply])
  then have star: "\<exists>r. handler ?blank sample_world 0 ?req = Replied r \<and> allow_origin_header r = Some ''*''"
    using reply by blast
  show ?thesis by (intro conjI list echo empty star)
qed

end
